theory Spec2Isabelle
  imports Complex_Main "HOL-Library.Sublist"
begin

section \<open>ORGANIC \<open>mol_methods.py\<close>: shaping functions, vocabulary, codec, results\<close>

text \<open>
  A shallow embedding of \<^verbatim>\<open>src/model/mol_methods.py\<close>.

  \<^item> Python numbers are modelled by \<open>int\<close> (unbounded integers) and, for the shaping
    functions, by \<open>real\<close> (exact arithmetic standing in for Python floats).
  \<^item> A raised exception is the left summand of \<open>error + 'a\<close>.
  \<^item> Python strings are lists of characters; the functions that take the pad character
    as an argument are polymorphic in the character type, the ones that hard-wire the
    default \<^verbatim>\<open>'_'\<close> work on \<open>string\<close>.
  \<^item> The RDKit parser is outside the repository: \<^verbatim>\<open>Chem.MolFromSmiles\<close> and
    \<^verbatim>\<open>GetNumAtoms\<close> are parameters of the functions that call them.
\<close>

subsection \<open>Exceptions\<close>

text \<open>
  \<^verbatim>\<open>ParserError\<close> stands for an exception raised inside the external parser,
  \<^verbatim>\<open>CallbackError\<close> for one raised by a function the caller passed in.
\<close>

datatype error =
    KeyError
  | ZeroDivisionError
  | ParserError
  | CallbackError

text \<open>\<^verbatim>\<open>d[k]\<close> on a dictionary: a missing key raises \<^verbatim>\<open>KeyError\<close>.\<close>

definition lookup :: "('k \<rightharpoonup> 'v) \<Rightarrow> 'k \<Rightarrow> error + 'v" where
  "lookup d k = (case d k of None \<Rightarrow> Inl KeyError | Some v \<Rightarrow> Inr v)"

text \<open>
  A list comprehension \<^verbatim>\<open>[f(x) for x in xs]\<close> whose body may raise: elements are
  evaluated left to right and the first exception ends the comprehension.
\<close>

fun for_each :: "('a \<Rightarrow> error + 'b) \<Rightarrow> 'a list \<Rightarrow> error + 'b list" where
  "for_each f [] = Inr []"
| "for_each f (x # xs) =
     (case f x of
        Inl e \<Rightarrow> Inl e
      | Inr y \<Rightarrow> (case for_each f xs of Inl e \<Rightarrow> Inl e | Inr ys \<Rightarrow> Inr (y # ys)))"

subsection \<open>Mathematical utilities\<close>

text \<open>
  \<^verbatim>\<open>
  def remap(x, x_min, x_max):
      if x_max != 0 and x_min != 0:
          return 0
      elif x_max - x_min == 0:
          return x
      else:
          return (x - x_min) / (x_max - x_min)
  \<close>
  The module imports \<^verbatim>\<open>division\<close> from \<^verbatim>\<open>__future__\<close>, so \<^verbatim>\<open>/\<close> is true division.
  The divisor of the last branch is non-zero there, so the function never raises.
\<close>

definition remap :: "real \<Rightarrow> real \<Rightarrow> real \<Rightarrow> real" where
  "remap x x_min x_max =
     (if x_max \<noteq> 0 \<and> x_min \<noteq> 0 then 0
      else if x_max - x_min = 0 then x
      else (x - x_min) / (x_max - x_min))"

text \<open>
  \<^verbatim>\<open>
  def constant_bump_func(x, x_low, x_high, decay=0.025):
      if x <= x_low:
          return np.exp(-(x - x_low)**2 / decay)
      elif x >= x_high:
          return np.exp(-(x - x_high)**2 / decay)
      else:
          return 1
  \<close>
  \<^verbatim>\<open>**\<close> binds tighter than the unary minus. Dividing by a zero \<^verbatim>\<open>decay\<close> raises
  in the two branches that divide; the plateau branch does not divide.
\<close>

definition gauss_decay :: "real \<Rightarrow> real \<Rightarrow> real \<Rightarrow> error + real" where
  "gauss_decay x x_edge decay =
     (if decay = 0 then Inl ZeroDivisionError else Inr (exp (- ((x - x_edge)\<^sup>2) / decay)))"

definition constant_bump_func :: "real \<Rightarrow> real \<Rightarrow> real \<Rightarrow> real \<Rightarrow> error + real" where
  "constant_bump_func x x_low x_high decay =
     (if x \<le> x_low then gauss_decay x x_low decay
      else if x \<ge> x_high then gauss_decay x x_high decay
      else Inr 1)"

text \<open>
  The argument of the vectorised functions is a scalar or a sequence
  (\<^verbatim>\<open>hasattr(x, "__len__")\<close>).
  \<^verbatim>\<open>
  def constant_bump(x, x_low, x_high, decay=0.025):
      if hasattr(x, "__len__"):
          return np.array([constant_bump_func(xi, x_low, x_high, decay) for xi in x])
      else:
          return constant_bump_func(x, x_low, x_high, decay)
  \<close>
\<close>

datatype arg = Scalar real | Array "real list"

definition constant_bump :: "arg \<Rightarrow> real \<Rightarrow> real \<Rightarrow> real \<Rightarrow> error + arg" where
  "constant_bump x x_low x_high decay =
     (case x of
        Array xs \<Rightarrow>
          (case for_each (\<lambda>xi. constant_bump_func xi x_low x_high decay) xs of
             Inl e \<Rightarrow> Inl e
           | Inr ys \<Rightarrow> Inr (Array ys))
      | Scalar v \<Rightarrow>
          (case constant_bump_func v x_low x_high decay of
             Inl e \<Rightarrow> Inl e
           | Inr y \<Rightarrow> Inr (Scalar y)))"

text \<open>The number a scalar call returned (0 stands for a call that did not return one).\<close>

definition returned :: "error + arg \<Rightarrow> real" where
  "returned r = (case r of Inr (Scalar y) \<Rightarrow> y | _ \<Rightarrow> 0)"

text \<open>
  \<^verbatim>\<open>
  def pct(a, b):
      if len(b) == 0:
          return 0
      return float(len(a)) / len(b)
  \<close>
\<close>

definition pct :: "'a list \<Rightarrow> 'b list \<Rightarrow> real" where
  "pct a b = (if length b = 0 then 0 else real (length a) / real (length b))"

subsection \<open>Padding\<close>

text \<open>
  \<^verbatim>\<open>
  def pad(smile, n, pad_char='_'):
      if n < len(smile):
          return smile
      return smile + pad_char * (n - len(smile))

  def unpad(smile, pad_char='_'):
      return smile.rstrip(pad_char)
  \<close>
  \<^verbatim>\<open>pad_char\<close> is one character, so \<^verbatim>\<open>pad_char * k\<close> is \<open>k\<close> copies of it, and
  \<^verbatim>\<open>rstrip\<close> removes its trailing occurrences.
\<close>

definition pad :: "'c list \<Rightarrow> int \<Rightarrow> 'c \<Rightarrow> 'c list" where
  "pad smile n pad_char =
     (if n < int (length smile) then smile
      else smile @ replicate (nat (n - int (length smile))) pad_char)"

definition unpad :: "'c list \<Rightarrow> 'c \<Rightarrow> 'c list" where
  "unpad smile pad_char = rev (dropWhile (\<lambda>c. c = pad_char) (rev smile))"


subsection \<open>Validity oracle\<close>

text \<open>
  \<^verbatim>\<open>
  def verify_sequence(smile):
      mol = Chem.MolFromSmiles(smile)
      return smile != '' and mol is not None and mol.GetNumAtoms() > 1

  def apply_to_valid(smile, fun, **kwargs):
      mol = Chem.MolFromSmiles(smile)
      return fun(mol, **kwargs) if smile != '' and mol is not None and mol.GetNumAtoms() > 1 else 0.0
  \<close>
  The parser is called first, outside any \<^verbatim>\<open>try\<close>: what it raises leaves the function.
  It returns \<^verbatim>\<open>None\<close> (here \<open>Inr None\<close>) for a string it rejects. The keyword
  arguments are part of \<open>fun\<close>, which returns a number or raises. The result of
  \<^verbatim>\<open>apply_to_valid\<close> is the outcome of \<^verbatim>\<open>fun(mol)\<close> itself or the float \<^verbatim>\<open>0.0\<close>, with
  nothing to tell the two apart when \<open>fun\<close> returns \<^verbatim>\<open>0.0\<close>.
\<close>

definition verify_sequence ::
  "(string \<Rightarrow> error + 'mol option) \<Rightarrow> ('mol \<Rightarrow> int) \<Rightarrow> string \<Rightarrow> error + bool" where
  "verify_sequence MolFromSmiles GetNumAtoms smile =
     (case MolFromSmiles smile of
        Inl e \<Rightarrow> Inl e
      | Inr mol \<Rightarrow>
          Inr (smile \<noteq> [] \<and> (case mol of None \<Rightarrow> False | Some m \<Rightarrow> GetNumAtoms m > 1)))"


subsection \<open>Vocabulary\<close>

text \<open>
  \<^verbatim>\<open>
  def build_vocab(smiles, pad_char='_', start_char='^'):
      i = 1
      char_dict, ord_dict = {start_char: 0}, {0: start_char}
      for smile in smiles:
          for c in smile:
              if c not in char_dict:
                  char_dict[c] = i
                  ord_dict[i] = c
                  i += 1
      char_dict[pad_char], ord_dict[i] = i, pad_char
      return char_dict, ord_dict
  \<close>
  The loop state is \<open>(i, char_dict, ord_dict)\<close>; \<open>vocab_step\<close> is the body of the inner
  loop.
\<close>

type_synonym 'c vocab_state = "int \<times> ('c \<rightharpoonup> int) \<times> (int \<rightharpoonup> 'c)"

definition vocab_step :: "'c \<Rightarrow> 'c vocab_state \<Rightarrow> 'c vocab_state" where
  "vocab_step c st =
     (case st of (i, char_dict, ord_dict) \<Rightarrow>
        if char_dict c = None then (i + 1, char_dict(c \<mapsto> i), ord_dict(i \<mapsto> c))
        else (i, char_dict, ord_dict))"

definition vocab_scan :: "'c list list \<Rightarrow> 'c \<Rightarrow> 'c vocab_state" where
  "vocab_scan smiles start_char =
     fold (\<lambda>smile st. fold vocab_step smile st) smiles
       (1, [start_char \<mapsto> 0], [0 \<mapsto> start_char])"

definition build_vocab :: "'c list list \<Rightarrow> 'c \<Rightarrow> 'c \<Rightarrow> ('c \<rightharpoonup> int) \<times> (int \<rightharpoonup> 'c)" where
  "build_vocab smiles pad_char start_char =
     (case vocab_scan smiles start_char of (i, char_dict, ord_dict) \<Rightarrow>
        (char_dict(pad_char \<mapsto> i), ord_dict(i \<mapsto> pad_char)))"

text \<open>The characters of a corpus.\<close>

definition corpus_chars :: "'c list list \<Rightarrow> 'c set" where
  "corpus_chars smiles = set (concat smiles)"

subsection \<open>Codec\<close>

text \<open>
  \<^verbatim>\<open>
  def encode(smile, max_len, char_dict):
      return [char_dict[c] for c in pad(smile, max_len)]

  def decode(ords, ord_dict):
      return unpad(''.join([ord_dict[o] for o in ords]))
  \<close>
  Both calls leave \<^verbatim>\<open>pad_char\<close> at its default \<^verbatim>\<open>'_'\<close>, whatever pad character the
  vocabulary was built with. The values of \<^verbatim>\<open>ord_dict\<close> are single characters, so
  the join is the list of them.
\<close>

definition encode :: "string \<Rightarrow> int \<Rightarrow> (char \<rightharpoonup> int) \<Rightarrow> error + int list" where
  "encode smile max_len char_dict = for_each (lookup char_dict) (pad smile max_len CHR ''_'')"

definition decode :: "int list \<Rightarrow> (int \<rightharpoonup> char) \<Rightarrow> error + string" where
  "decode ords ord_dict =
     (case for_each (lookup ord_dict) ords of
        Inl e \<Rightarrow> Inl e
      | Inr cs \<Rightarrow> Inr (unpad cs CHR ''_''))"

subsection \<open>Results record, artifact and report\<close>

text \<open>
  The \<^verbatim>\<open>results\<close> dictionary, by the keys the module reads and writes; \<open>None\<close> is a
  missing key. \<^verbatim>\<open>exp_name\<close> and \<^verbatim>\<open>Batch\<close> are used only through
  \<^verbatim>\<open>'{}_{}'.format\<close>, so each is kept as the text it formats to. \<^verbatim>\<open>np.mean\<close> of
  an empty list is \<^verbatim>\<open>nan\<close> (with a warning, not an exception).
\<close>

datatype npfloat = Finite real | NaN

record results =
  mean_length :: "npfloat option"
  n_samples :: "int option"
  uniq_samples :: "int option"
  good_samples :: "int option"
  bad_samples :: "int option"
  exp_name :: "string option"
  Batch :: "string option"
  model_samples :: "string option"

definition np_mean :: "int list \<Rightarrow> npfloat" where
  "np_mean xs = (if xs = [] then NaN else Finite (real_of_int (sum_list xs) / real (length xs)))"

text \<open>
  \<^verbatim>\<open>
  def save_smi(name, smiles):
      if not os.path.exists('epoch_data'):
          os.makedirs('epoch_data')
      smi_file = os.path.join('epoch_data', "{}.smi".format(name))
      with open(smi_file, 'w') as afile:
          afile.write('\n'.join(smiles))
      return
  \<close>
  The file system is the set of directories and the contents of the files; failures of
  the operating system are not modelled.
\<close>

record filesystem =
  dirs :: "string set"
  files :: "string \<rightharpoonup> string"

fun join :: "string \<Rightarrow> string list \<Rightarrow> string" where
  "join sep [] = []"
| "join sep [s] = s"
| "join sep (s # t # ss) = s @ sep @ join sep (t # ss)"

definition os_path_exists :: "filesystem \<Rightarrow> string \<Rightarrow> bool" where
  "os_path_exists fs path = (path \<in> dirs fs \<or> files fs path \<noteq> None)"

definition os_path_join :: "string \<Rightarrow> string \<Rightarrow> string" where
  "os_path_join a b =
     (case b of
        [] \<Rightarrow> a @ ''/''
      | c # _ \<Rightarrow> if c = CHR ''/'' then b else a @ ''/'' @ b)"

definition save_smi :: "string \<Rightarrow> string list \<Rightarrow> filesystem \<Rightarrow> filesystem" where
  "save_smi name smiles fs =
     (let fs1 = (if \<not> os_path_exists fs ''epoch_data''
                 then fs\<lparr>dirs := insert ''epoch_data'' (dirs fs)\<rparr> else fs);
          smi_file = os_path_join ''epoch_data'' (name @ ''.smi'')
      in fs1\<lparr>files := (files fs1)(smi_file \<mapsto> join [CHR 0x0A] smiles)\<rparr>)"

text \<open>
  What \<^verbatim>\<open>print_results\<close> prints, line by line, with the numbers a line formats kept
  as numbers.
  \<^verbatim>\<open>
  def print_results(verified_samples, unverified_samples, results={}):
      print('~~~ Summary Results ~~~')
      print('{:15s} : {:6d}'.format("Total samples", results['n_samples']))
      percent = results['uniq_samples'] / float(results['n_samples']) * 100
      print('{:15s} : {:6d} ({:2.2f}%)'.format(
          'Unique', results['uniq_samples'], percent))
      percent = results['bad_samples'] / float(results['n_samples']) * 100
      print('{:15s} : {:6d} ({:2.2f}%)'.format('Unverified',
                                               results['bad_samples'], percent))
      percent = results['good_samples'] / float(results['n_samples']) * 100
      print('{:15s} : {:6d} ({:2.2f}%)'.format(
          'Verified', results['good_samples'], percent))
      if len(verified_samples) > 10:
          print('\nExample of good samples:')
          for s in verified_samples[0:10]:
              print('' + s)
      else:
          print('\nno good samples found :(')
      if len(unverified_samples) > 10:
          print('\nExample of bad samples:')
          for s in unverified_samples[0:10]:
              print('' + s)
      else:
          print('\nno bad samples found :(')
      print('~~~~~~~~~~~~~~~~~~~~~~~')
      return
  \<close>
  \<open>percent k n\<close> is the division \<^verbatim>\<open>k / float(n) * 100\<close>; \<open>print_stat\<close> is one of the
  three blocks "look the count up, divide, print". Lines printed before an exception
  stay printed, so the lines are returned next to the outcome.
\<close>

datatype line =
    Text string
  | Count string int
  | CountPercent string int real

definition percent :: "int \<Rightarrow> int \<Rightarrow> error + real" where
  "percent k n =
     (if real_of_int n = 0 then Inl ZeroDivisionError
      else Inr (real_of_int k / real_of_int n * 100))"

definition print_stat ::
  "string \<Rightarrow> int option \<Rightarrow> results \<Rightarrow> line list \<Rightarrow> line list \<times> (error + unit)" where
  "print_stat label count results printed =
     (case count of
        None \<Rightarrow> (printed, Inl KeyError)
      | Some k \<Rightarrow>
          (case n_samples results of
             None \<Rightarrow> (printed, Inl KeyError)
           | Some n \<Rightarrow>
               (case percent k n of
                  Inl e \<Rightarrow> (printed, Inl e)
                | Inr p \<Rightarrow> (printed @ [CountPercent label k p], Inr ()))))"

definition print_examples :: "string \<Rightarrow> string \<Rightarrow> string list \<Rightarrow> line list" where
  "print_examples header none_found samples =
     (if length samples > 10 then Text header # map Text (take 10 samples)
      else [Text none_found])"

definition print_results ::
  "string list \<Rightarrow> string list \<Rightarrow> results \<Rightarrow> line list \<times> (error + unit)" where
  "print_results verified_samples unverified_samples results =
     (let p0 = [Text ''~~~ Summary Results ~~~''] in
      case n_samples results of
        None \<Rightarrow> (p0, Inl KeyError)
      | Some n \<Rightarrow>
          (case print_stat ''Unique'' (uniq_samples results) results
                  (p0 @ [Count ''Total samples'' n]) of
             (p1, Inl e) \<Rightarrow> (p1, Inl e)
           | (p1, Inr _) \<Rightarrow>
               (case print_stat ''Unverified'' (bad_samples results) results p1 of
                  (p2, Inl e) \<Rightarrow> (p2, Inl e)
                | (p2, Inr _) \<Rightarrow>
                    (case print_stat ''Verified'' (good_samples results) results p2 of
                       (p3, Inl e) \<Rightarrow> (p3, Inl e)
                     | (p3, Inr _) \<Rightarrow>
                         (p3
                          @ print_examples (CHR 0x0A # ''Example of good samples:'')
                              (CHR 0x0A # ''no good samples found :('') verified_samples
                          @ print_examples (CHR 0x0A # ''Example of bad samples:'')
                              (CHR 0x0A # ''no bad samples found :('') unverified_samples
                          @ [Text ''~~~~~~~~~~~~~~~~~~~~~~~''],
                          Inr ())))))"

text \<open>
  \<^verbatim>\<open>
  def compute_results(model_samples, train_data, ord_dict, results={}, verbose=True):
      samples = [decode(s, ord_dict) for s in model_samples]
      results['mean_length'] = np.mean([len(sample) for sample in samples])
      results['n_samples'] = len(samples)
      results['uniq_samples'] = len(set(samples))
      verified_samples = []
      unverified_samples = []
      for sample in samples:
          if verify_sequence(sample):
              verified_samples.append(sample)
          else:
              unverified_samples.append(sample)
      results['good_samples'] = len(verified_samples)
      results['bad_samples'] = len(unverified_samples)
      if 'Batch' in results.keys():
          smi_name = '{}_{}'.format(results['exp_name'], results['Batch'])
          save_smi(smi_name, samples)
          results['model_samples'] = smi_name
      if verbose:
          print_results(verified_samples, unverified_samples, results)
      return
  \<close>
  The dictionary is mutated in place, so an exception leaves the writes made before it:
  the model returns the dictionary, the file system and the printed lines as they are
  when the call ends, next to its outcome. The outcome of a call that returns is the
  returned value, \<open>None\<close> for Python's \<^verbatim>\<open>None\<close> and \<open>Some r\<close> for a results dictionary.
  The first argument is called \<open>encoded_samples\<close> here, \<open>model_samples\<close> being the
  dictionary key.
\<close>

fun partition_loop ::
  "(string \<Rightarrow> error + 'mol option) \<Rightarrow> ('mol \<Rightarrow> int) \<Rightarrow> string list \<Rightarrow> string list \<Rightarrow> string list
     \<Rightarrow> error + (string list \<times> string list)" where
  "partition_loop MolFromSmiles GetNumAtoms [] verified_samples unverified_samples =
     Inr (verified_samples, unverified_samples)"
| "partition_loop MolFromSmiles GetNumAtoms (sample # samples) verified_samples unverified_samples =
     (case verify_sequence MolFromSmiles GetNumAtoms sample of
        Inl e \<Rightarrow> Inl e
      | Inr ok \<Rightarrow>
          if ok
          then partition_loop MolFromSmiles GetNumAtoms samples
                 (verified_samples @ [sample]) unverified_samples
          else partition_loop MolFromSmiles GetNumAtoms samples
                 verified_samples (unverified_samples @ [sample]))"

type_synonym world = "results \<times> filesystem \<times> line list"

definition save_batch ::
  "string list \<Rightarrow> results \<Rightarrow> filesystem \<Rightarrow> (results \<times> filesystem) \<times> (error + unit)" where
  "save_batch samples results fs =
     (case Batch results of
        None \<Rightarrow> ((results, fs), Inr ())
      | Some batch \<Rightarrow>
          (case exp_name results of
             None \<Rightarrow> ((results, fs), Inl KeyError)
           | Some name \<Rightarrow>
               (let smi_name = name @ ''_'' @ batch
                in ((results\<lparr>model_samples := Some smi_name\<rparr>, save_smi smi_name samples fs),
                    Inr ()))))"

definition compute_results ::
  "(string \<Rightarrow> error + 'mol option) \<Rightarrow> ('mol \<Rightarrow> int) \<Rightarrow> int list list \<Rightarrow> 'train \<Rightarrow> (int \<rightharpoonup> char)
     \<Rightarrow> results \<Rightarrow> bool \<Rightarrow> filesystem \<Rightarrow> world \<times> (error + results option)" where
  "compute_results MolFromSmiles GetNumAtoms encoded_samples train_data ord_dict results verbose fs =
     (case for_each (\<lambda>s. decode s ord_dict) encoded_samples of
        Inl e \<Rightarrow> ((results, fs, []), Inl e)
      | Inr samples \<Rightarrow>
          (let r1 = results\<lparr>mean_length := Some (np_mean (map (\<lambda>sample. int (length sample)) samples)),
                             n_samples := Some (int (length samples)),
                             uniq_samples := Some (int (length (remdups samples)))\<rparr>
           in case partition_loop MolFromSmiles GetNumAtoms samples [] [] of
                Inl e \<Rightarrow> ((r1, fs, []), Inl e)
              | Inr (verified_samples, unverified_samples) \<Rightarrow>
                  (let r2 = r1\<lparr>good_samples := Some (int (length verified_samples)),
                                bad_samples := Some (int (length unverified_samples))\<rparr>
                   in case save_batch samples r2 fs of
                        ((r3, fs3), Inl e) \<Rightarrow> ((r3, fs3, []), Inl e)
                      | ((r3, fs3), Inr _) \<Rightarrow>
                          if verbose
                          then (case print_results verified_samples unverified_samples r3 of
                                  (printed, Inl e) \<Rightarrow> ((r3, fs3, printed), Inl e)
                                | (printed, Inr _) \<Rightarrow> ((r3, fs3, printed), Inr None))
                          else ((r3, fs3, []), Inr None))))"

subsection \<open>A stand-in parser for the examples\<close>

text \<open>
  A molecule is its number of atoms. The stand-in rejects a string that contains
  \<^verbatim>\<open>Z\<close>, raises on one that contains \<^verbatim>\<open>!\<close>, and otherwise counts one atom per
  character.
\<close>

definition toy_MolFromSmiles :: "string \<Rightarrow> error + nat option" where
  "toy_MolFromSmiles smile =
     (if CHR ''!'' \<in> set smile then Inl ParserError
      else if CHR ''Z'' \<in> set smile then Inr None
      else Inr (Some (length smile)))"

definition toy_GetNumAtoms :: "nat \<Rightarrow> int" where
  "toy_GetNumAtoms mol = int mol"


definition empty_results :: results where
  "empty_results =
     \<lparr>mean_length = None, n_samples = None, uniq_samples = None, good_samples = None,
      bad_samples = None, exp_name = None, Batch = None, model_samples = None\<rparr>"

definition empty_fs :: filesystem where
  "empty_fs = \<lparr>dirs = {}, files = Map.empty\<rparr>"

subsection \<open>The loop invariant of \<open>build_vocab\<close>\<close>

text \<open>
  After the characters \<open>seen\<close> have been scanned: the two dictionaries are inverse to
  each other, the start character has code 0, the keys of \<open>char_dict\<close> are the start
  character and the characters seen, the codes in use are \<open>0, \<dots>, i - 1\<close>, and \<open>i\<close> is one
  more than the number of characters seen other than the start character.
\<close>

definition vocab_inv :: "'c \<Rightarrow> 'c set \<Rightarrow> 'c vocab_state \<Rightarrow> bool" where
  "vocab_inv start_char seen st =
     (case st of (i, char_dict, ord_dict) \<Rightarrow>
        (\<forall>c k. char_dict c = Some k \<longleftrightarrow> ord_dict k = Some c) \<and>
        char_dict start_char = Some 0 \<and>
        dom char_dict = insert start_char seen \<and>
        finite seen \<and>
        dom ord_dict = {0..<i} \<and>
        i = 1 + int (card (seen - {start_char})))"

section \<open>Properties\<close>

subsection \<open>\<open>remap\<close>\<close>

text \<open>
  C4 (as stated): \<^verbatim>\<open>remap(5, 0, 10)\<close> returns 0. The code does not: \<open>x_min\<close> is zero, so
  the first guard is not taken, the bounds differ, and the linear rescale runs.
\<close>

theorem remap_5_0_10_not_zero: "remap 5 0 10 \<noteq> 0"
  by (simp add: remap_def)

text \<open>C4 (amended): \<^verbatim>\<open>remap(5, 0, 10)\<close> returns 0.5.\<close>

theorem remap_5_0_10: "remap 5 0 10 = 1 / 2"
  by (simp add: remap_def)

text \<open>
  C5 (as stated): \<^verbatim>\<open>remap(x, c, c)\<close> returns \<open>x\<close> for every \<open>x\<close> and \<open>c\<close>. The code
  tests "both bounds non-zero" first, so for \<open>c = 1\<close> it returns 0.
\<close>

theorem remap_equal_bounds_counterexample: "remap 3 1 1 = 0 \<and> remap 3 1 1 \<noteq> 3"
  by (simp add: remap_def)

text \<open>
  C5 (amended): \<^verbatim>\<open>remap(x, c, c)\<close> returns \<open>x\<close> unchanged when \<open>c\<close> is zero, and 0
  when \<open>c\<close> is not zero.
\<close>

theorem remap_equal_bounds: "remap x c c = (if c = 0 then x else 0)"
  by (simp add: remap_def)

theorem remap_equal_bounds_witness: "remap 7 0 0 = 7 \<and> remap 7 2 2 = 0"
  using remap_equal_bounds [of 7 0] remap_equal_bounds [of 7 2] by simp

subsection \<open>\<open>pad\<close>\<close>

text \<open>
  C9: \<^verbatim>\<open>pad(s, n)\<close> returns \<open>s\<close> unchanged whenever \<open>len(s) \<ge> n\<close>; otherwise the result
  has length exactly \<open>n\<close> and starts with \<open>s\<close>.
\<close>

theorem pad_spec:
  "(n \<le> int (length s) \<longrightarrow> pad s n pad_char = s) \<and>
   (int (length s) < n \<longrightarrow> int (length (pad s n pad_char)) = n \<and> prefix s (pad s n pad_char))"
  by (auto simp: pad_def)

theorem pad_spec_witness:
  "pad ''CCO'' 3 CHR ''_'' = ''CCO'' \<and> pad ''CCO'' 2 CHR ''_'' = ''CCO'' \<and>
   int (length (pad ''CCO'' 5 CHR ''_'')) = 5 \<and> prefix ''CCO'' (pad ''CCO'' 5 CHR ''_'')"
  using pad_spec [of 3 "''CCO''" "CHR ''_''"] pad_spec [of 2 "''CCO''" "CHR ''_''"]
    pad_spec [of 5 "''CCO''" "CHR ''_''"]
  by simp

subsection \<open>\<open>constant_bump\<close>\<close>

lemma returned_constant_bump:
  assumes "x_low \<le> x_high" and "decay \<noteq> 0"
  shows "returned (constant_bump (Scalar x) x_low x_high decay) =
         exp (- ((max 0 (max (x_low - x) (x - x_high)))\<^sup>2) / decay)"
proof -
  consider "x \<le> x_low" | "x_low < x" "x_high \<le> x" | "x_low < x" "x < x_high" by linarith
  then show ?thesis
  proof cases
    case 1
    with assms have "max 0 (max (x_low - x) (x - x_high)) = x_low - x" by simp
    with 1 assms show ?thesis
      by (simp add: returned_def constant_bump_def constant_bump_func_def gauss_decay_def power2_commute)
  next
    case 2
    with assms have "max 0 (max (x_low - x) (x - x_high)) = x - x_high" by simp
    with 2 assms show ?thesis
      by (simp add: returned_def constant_bump_def constant_bump_func_def gauss_decay_def)
  next
    case 3
    with assms have "max 0 (max (x_low - x) (x - x_high)) = 0" by simp
    with 3 assms show ?thesis
      by (simp add: returned_def constant_bump_def constant_bump_func_def gauss_decay_def)
  qed
qed

lemma constant_bump_continuous:
  assumes "x_low \<le> x_high" and "decay \<noteq> 0"
  shows "isCont (\<lambda>x. returned (constant_bump (Scalar x) x_low x_high decay)) a"
proof -
  have "(\<lambda>x. returned (constant_bump (Scalar x) x_low x_high decay)) =
        (\<lambda>x. exp (- ((max 0 (max (x_low - x) (x - x_high)))\<^sup>2) / decay))"
    using assms by (simp add: returned_constant_bump)
  moreover have "isCont (\<lambda>x. exp (- ((max 0 (max (x_low - x) (x - x_high)))\<^sup>2) / decay)) a"
    using assms(2) by (intro continuous_intros) simp_all
  ultimately show ?thesis by simp
qed

lemma constant_bump_func_plateau:
  assumes "decay \<noteq> 0" and "x_low \<le> x" and "x \<le> x_high"
  shows "constant_bump_func x x_low x_high decay = Inr 1"
proof (cases "x \<le> x_low")
  case True
  with assms have "x = x_low" by simp
  with assms show ?thesis by (simp add: constant_bump_func_def gauss_decay_def)
next
  case False
  show ?thesis
  proof (cases "x \<ge> x_high")
    case True
    with assms have "x = x_high" by simp
    with False assms show ?thesis by (simp add: constant_bump_func_def gauss_decay_def)
  next
    case False
    with \<open>\<not> x \<le> x_low\<close> show ?thesis by (simp add: constant_bump_func_def)
  qed
qed

lemma constant_bump_array_plateau:
  assumes "decay \<noteq> 0" and "\<forall>x \<in> set xs. x_low \<le> x \<and> x \<le> x_high"
  shows "constant_bump (Array xs) x_low x_high decay = Inr (Array (map (\<lambda>_. 1) xs))"
proof -
  have "for_each (\<lambda>xi. constant_bump_func xi x_low x_high decay) xs = Inr (map (\<lambda>_. 1) xs)"
    using assms(2) by (induction xs) (simp_all add: constant_bump_func_plateau [OF assms(1)])
  then show ?thesis by (simp add: constant_bump_def)
qed

text \<open>
  C10: for \<open>x_low \<le> x_high\<close> and \<open>decay > 0\<close>, \<^verbatim>\<open>constant_bump\<close> returns exactly 1 at
  every \<open>x\<close> of the closed interval \<open>[x_low, x_high]\<close>, the two boundary points included
  (they fall into the decay branches, where the exponent is 0), and the function is
  continuous at both plateau edges.
\<close>

theorem constant_bump_closed_interval:
  assumes "x_low \<le> x_high" and "0 < decay"
  shows "(x_low \<le> x \<and> x \<le> x_high \<longrightarrow>
            constant_bump_func x x_low x_high decay = Inr 1 \<and>
            constant_bump (Scalar x) x_low x_high decay = Inr (Scalar 1)) \<and>
         constant_bump (Scalar x_low) x_low x_high decay = Inr (Scalar 1) \<and>
         constant_bump (Scalar x_high) x_low x_high decay = Inr (Scalar 1) \<and>
         isCont (\<lambda>y. returned (constant_bump (Scalar y) x_low x_high decay)) x_low \<and>
         isCont (\<lambda>y. returned (constant_bump (Scalar y) x_low x_high decay)) x_high"
proof -
  from assms have d: "decay \<noteq> 0" by simp
  have p: "constant_bump (Scalar y) x_low x_high decay = Inr (Scalar 1)"
    if "x_low \<le> y" "y \<le> x_high" for y
    using constant_bump_func_plateau [OF d that] by (simp add: constant_bump_def)
  show ?thesis
    using assms(1) p constant_bump_func_plateau [OF d] constant_bump_continuous [OF assms(1) d]
    by simp
qed

text \<open>The default decay 0.025 on the interval \<open>[0, 1]\<close>.\<close>

theorem constant_bump_closed_interval_witness:
  "constant_bump_func (1 / 2) 0 1 (1 / 40) = Inr 1 \<and>
   constant_bump (Scalar (1 / 2)) 0 1 (1 / 40) = Inr (Scalar 1) \<and>
   constant_bump (Scalar 0) 0 1 (1 / 40) = Inr (Scalar 1) \<and>
   constant_bump (Scalar 1) 0 1 (1 / 40) = Inr (Scalar 1) \<and>
   isCont (\<lambda>y. returned (constant_bump (Scalar y) 0 1 (1 / 40))) 0 \<and>
   isCont (\<lambda>y. returned (constant_bump (Scalar y) 0 1 (1 / 40))) 1"
  using constant_bump_closed_interval [of 0 1 "1 / 40" "1 / 2"] by simp

subsection \<open>\<open>build_vocab\<close>\<close>

lemmas vocab_eval = build_vocab_def vocab_scan_def vocab_step_def

lemma vocab_inv_init: "vocab_inv start_char {} (1, [start_char \<mapsto> 0], [0 \<mapsto> start_char])"
  by (auto simp: vocab_inv_def split: if_splits)

lemma vocab_invI:
  assumes "\<And>c k. char_dict c = Some k \<longleftrightarrow> ord_dict k = Some c"
    and "char_dict start_char = Some 0"
    and "dom char_dict = insert start_char seen"
    and "finite seen"
    and "dom ord_dict = {0..<i}"
    and "i = 1 + int (card (seen - {start_char}))"
  shows "vocab_inv start_char seen (i, char_dict, ord_dict)"
  using assms by (simp add: vocab_inv_def)

lemma vocab_inv_step:
  assumes "vocab_inv start_char seen st"
  shows "vocab_inv start_char (insert c seen) (vocab_step c st)"
proof -
  obtain i char_dict ord_dict where st: "st = (i, char_dict, ord_dict)"
    by (cases st) auto
  from assms st have bij: "\<And>c k. char_dict c = Some k \<longleftrightarrow> ord_dict k = Some c"
    and start: "char_dict start_char = Some 0"
    and domc: "dom char_dict = insert start_char seen"
    and fin: "finite seen"
    and domo: "dom ord_dict = {0..<i}"
    and i: "i = 1 + int (card (seen - {start_char}))"
    by (simp_all add: vocab_inv_def)
  show ?thesis
  proof (cases "char_dict c")
    case None
    then have cnew: "c \<noteq> start_char" "c \<notin> seen"
      using domc by auto
    have ifresh: "ord_dict i = None"
      using domo by (metis atLeastLessThan_iff domIff less_irrefl)
    have nocode: "char_dict c' \<noteq> Some i" for c'
      using bij ifresh by simp
    have step: "vocab_step c st = (i + 1, char_dict(c \<mapsto> i), ord_dict(i \<mapsto> c))"
      using None st by (simp add: vocab_step_def)
    show ?thesis
      unfolding step
    proof (rule vocab_invI)
      fix c' k
      show "(char_dict(c \<mapsto> i)) c' = Some k \<longleftrightarrow> (ord_dict(i \<mapsto> c)) k = Some c'"
      proof (cases "c' = c")
        case True
        with None bij [of c k] show ?thesis by auto
      next
        case False
        with bij [of c' k] nocode [of c'] show ?thesis by auto
      qed
    next
      show "(char_dict(c \<mapsto> i)) start_char = Some 0"
        using start cnew by simp
    next
      show "dom (char_dict(c \<mapsto> i)) = insert start_char (insert c seen)"
        using domc by auto
    next
      show "finite (insert c seen)"
        using fin by simp
    next
      have "0 \<le> i" using i by simp
      then show "dom (ord_dict(i \<mapsto> c)) = {0..<i + 1}"
        using domo by auto
    next
      have "card (insert c seen - {start_char}) = Suc (card (seen - {start_char}))"
        using cnew fin by (simp add: insert_Diff_if)
      then show "i + 1 = 1 + int (card (insert c seen - {start_char}))"
        using i by simp
    qed
  next
    case (Some k)
    then have "c \<in> insert start_char seen"
      using domc by auto
    then have same: "insert start_char (insert c seen) = insert start_char seen"
      "insert c seen - {start_char} = seen - {start_char}"
      by auto
    have step: "vocab_step c st = (i, char_dict, ord_dict)"
      using Some st by (simp add: vocab_step_def)
    show ?thesis
      unfolding step
      by (rule vocab_invI) (use bij start domc fin domo i same in simp_all)
  qed
qed

lemma vocab_inv_smile:
  "vocab_inv start_char seen st \<Longrightarrow>
   vocab_inv start_char (seen \<union> set smile) (fold vocab_step smile st)"
proof (induction smile arbitrary: seen st)
  case Nil
  then show ?case by simp
next
  case (Cons c smile)
  from Cons.IH [OF vocab_inv_step [OF Cons.prems, of c]] show ?case
    by simp
qed

lemma vocab_inv_smiles:
  "vocab_inv start_char seen st \<Longrightarrow>
   vocab_inv start_char (seen \<union> corpus_chars smiles)
     (fold (\<lambda>smile st. fold vocab_step smile st) smiles st)"
proof (induction smiles arbitrary: seen st)
  case Nil
  then show ?case by (simp add: corpus_chars_def)
next
  case (Cons smile smiles)
  from Cons.IH [OF vocab_inv_smile [OF Cons.prems, of smile]] show ?case
    by (simp add: corpus_chars_def Un_assoc)
qed

lemma vocab_inv_scan: "vocab_inv start_char (corpus_chars smiles) (vocab_scan smiles start_char)"
  using vocab_inv_smiles [OF vocab_inv_init, of start_char smiles]
  by (simp add: vocab_scan_def)


lemma vocab_invD:
  assumes "vocab_inv start_char seen (i, char_dict, ord_dict)"
  shows "\<And>c k. char_dict c = Some k \<longleftrightarrow> ord_dict k = Some c"
    and "char_dict start_char = Some 0"
    and "dom char_dict = insert start_char seen"
    and "finite seen"
    and "dom ord_dict = {0..<i}"
    and "i = 1 + int (card (seen - {start_char}))"
  using assms by (simp_all add: vocab_inv_def)

text \<open>Whatever the pad and start characters are, every character decodes from its code.\<close>

lemma build_vocab_decodes:
  assumes "build_vocab smiles pad_char start_char = (char_dict, ord_dict)"
    and "char_dict c = Some k"
  shows "ord_dict k = Some c"
proof -
  obtain i cd od where scan: "vocab_scan smiles start_char = (i, cd, od)"
    by (cases "vocab_scan smiles start_char") auto
  with assms(1) have cd: "char_dict = cd(pad_char \<mapsto> i)" and od: "ord_dict = od(i \<mapsto> pad_char)"
    by (simp_all add: build_vocab_def)
  from vocab_inv_scan [of start_char smiles] scan
  have inv: "vocab_inv start_char (corpus_chars smiles) (i, cd, od)" by simp
  show ?thesis
  proof (cases "c = pad_char")
    case True
    with assms(2) cd od show ?thesis by simp
  next
    case False
    with assms(2) cd have "cd c = Some k" by simp
    then have "od k = Some c" using vocab_invD(1) [OF inv] by simp
    moreover from this have "k \<noteq> i" using vocab_invD(5) [OF inv] by (metis atLeastLessThan_iff domI less_irrefl)
    ultimately show ?thesis using od by simp
  qed
qed

lemma build_vocab_dom:
  assumes "build_vocab smiles pad_char start_char = (char_dict, ord_dict)"
  shows "dom char_dict = insert pad_char (insert start_char (corpus_chars smiles))"
proof -
  obtain i cd od where scan: "vocab_scan smiles start_char = (i, cd, od)"
    by (cases "vocab_scan smiles start_char") auto
  with assms(1) have cd: "char_dict = cd(pad_char \<mapsto> i)"
    by (simp_all add: build_vocab_def)
  from vocab_inv_scan [of start_char smiles] scan
  have inv: "vocab_inv start_char (corpus_chars smiles) (i, cd, od)" by simp
  show ?thesis using cd vocab_invD(3) [OF inv] by simp
qed

text \<open>
  C2 (as stated): for any corpus and any pad and start character the two dictionaries
  are inverse bijections. With the default characters and the corpus \<^verbatim>\<open>["_"]\<close> they
  are not: the pad character is first given code 1 by the scan and then code 2, so code
  1 decodes to \<^verbatim>\<open>'_'\<close> while \<^verbatim>\<open>'_'\<close> encodes to 2.
\<close>

theorem build_vocab_pad_in_corpus:
  "snd (build_vocab [''_''] CHR ''_'' CHR ''^'') 1 = Some CHR ''_'' \<and>
   fst (build_vocab [''_''] CHR ''_'' CHR ''^'') CHR ''_'' = Some 2"
  by (simp add: vocab_eval)

text \<open>
  C2 (amended): when the pad character differs from the start character and does not
  occur in the corpus, \<^verbatim>\<open>char_dict\<close> and \<^verbatim>\<open>ord_dict\<close> are inverse bijections between
  the characters (pad, start and corpus characters) and the codes \<open>0, \<dots>, n\<close>; the start
  character has code 0 and the pad character the highest code \<open>n\<close>, one more than the
  number of distinct corpus characters other than the start character.
\<close>

theorem build_vocab_bijection:
  assumes "pad_char \<notin> corpus_chars smiles" and "pad_char \<noteq> start_char"
    and "build_vocab smiles pad_char start_char = (char_dict, ord_dict)"
    and "n = 1 + int (card (corpus_chars smiles - {start_char}))"
  shows "(\<forall>c k. char_dict c = Some k \<longleftrightarrow> ord_dict k = Some c) \<and>
         dom char_dict = insert pad_char (insert start_char (corpus_chars smiles)) \<and>
         dom ord_dict = {0..n} \<and>
         char_dict start_char = Some 0 \<and>
         char_dict pad_char = Some n"
proof -
  obtain i cd od where scan: "vocab_scan smiles start_char = (i, cd, od)"
    by (cases "vocab_scan smiles start_char") auto
  with assms(3) have cd: "char_dict = cd(pad_char \<mapsto> i)" and od: "ord_dict = od(i \<mapsto> pad_char)"
    by (simp_all add: build_vocab_def)
  from vocab_inv_scan [of start_char smiles] scan
  have inv: "vocab_inv start_char (corpus_chars smiles) (i, cd, od)" by simp
  note bij = vocab_invD(1) [OF inv] and start = vocab_invD(2) [OF inv]
    and domc = vocab_invD(3) [OF inv] and domo = vocab_invD(5) [OF inv]
    and i = vocab_invD(6) [OF inv]
  from i assms(4) have ni: "n = i" by simp
  have padnew: "cd pad_char = None"
    using domc assms(1,2) by auto
  have ifresh: "od i = None"
    using domo by (metis atLeastLessThan_iff domIff less_irrefl)
  have nocode: "cd c \<noteq> Some i" for c
    using bij ifresh by simp
  have "char_dict c = Some k \<longleftrightarrow> ord_dict k = Some c" for c k
  proof (cases "c = pad_char")
    case True
    with padnew bij [of pad_char k] cd od show ?thesis by auto
  next
    case False
    with bij [of c k] nocode [of c] cd od show ?thesis by auto
  qed
  moreover have "dom char_dict = insert pad_char (insert start_char (corpus_chars smiles))"
    using cd domc by simp
  moreover have "dom ord_dict = {0..n}"
  proof -
    have "0 \<le> i" using i by simp
    then show ?thesis using od domo ni by auto
  qed
  moreover have "char_dict start_char = Some 0"
    using cd start assms(2) by simp
  moreover have "char_dict pad_char = Some n"
    using cd ni by simp
  ultimately show ?thesis by blast
qed

theorem build_vocab_bijection_witness:
  "fst (build_vocab [''AB'', ''BA''] CHR ''_'' CHR ''^'') CHR ''^'' = Some 0 \<and>
   fst (build_vocab [''AB'', ''BA''] CHR ''_'' CHR ''^'') CHR ''_'' = Some 3 \<and>
   dom (fst (build_vocab [''AB'', ''BA''] CHR ''_'' CHR ''^'')) =
     {CHR ''_'', CHR ''^'', CHR ''A'', CHR ''B''} \<and>
   dom (snd (build_vocab [''AB'', ''BA''] CHR ''_'' CHR ''^'')) = {0..3} \<and>
   snd (build_vocab [''AB'', ''BA''] CHR ''_'' CHR ''^'') 3 = Some CHR ''_''"
proof -
  have chars: "corpus_chars [''AB'', ''BA''] = {CHR ''A'', CHR ''B''}"
    by (auto simp: corpus_chars_def)
  have p1: "CHR ''_'' \<notin> corpus_chars [''AB'', ''BA'']"
    by (simp add: chars)
  have p2: "CHR ''_'' \<noteq> CHR ''^''" by simp
  have n: "(3::int) = 1 + int (card (corpus_chars [''AB'', ''BA''] - {CHR ''^''}))"
    by (simp add: chars)
  note v = build_vocab_bijection [OF p1 p2 surjective_pairing n]
  note bij = v [THEN conjunct1]
    and keys = v [THEN conjunct2, THEN conjunct1]
    and codes = v [THEN conjunct2, THEN conjunct2, THEN conjunct1]
    and start = v [THEN conjunct2, THEN conjunct2, THEN conjunct2, THEN conjunct1]
    and pad = v [THEN conjunct2, THEN conjunct2, THEN conjunct2, THEN conjunct2]
  note code3 = bij [rule_format, THEN iffD1, OF pad]
  show ?thesis
    by (intro conjI start pad codes code3 keys [unfolded chars])
qed

subsection \<open>\<open>encode\<close> and \<open>decode\<close>\<close>

lemma for_each_lookup:
  assumes "set xs \<subseteq> dom d"
  shows "\<exists>ys. for_each (lookup d) xs = Inr ys \<and> list_all2 (\<lambda>x y. d x = Some y) xs ys"
  using assms
proof (induction xs)
  case Nil
  then show ?case by simp
next
  case (Cons x xs)
  then obtain ys where ys: "for_each (lookup d) xs = Inr ys" "list_all2 (\<lambda>x y. d x = Some y) xs ys"
    by auto
  from Cons.prems obtain y where y: "d x = Some y" by auto
  then have "lookup d x = Inr y" by (simp add: lookup_def)
  with ys y show ?case by simp
qed

lemma for_each_lookup_inverse:
  assumes "list_all2 (\<lambda>x y. d x = Some y) xs ys" and "\<And>x y. d x = Some y \<Longrightarrow> d' y = Some x"
  shows "for_each (lookup d') ys = Inr xs"
  using assms(1)
proof (induction rule: list_all2_induct)
  case Nil
  then show ?case by simp
next
  case (Cons x xs y ys)
  from Cons.hyps(1) have "lookup d' y = Inr x"
    using assms(2) [of x y] by (simp add: lookup_def)
  with Cons.IH show ?case by simp
qed

lemma unpad_pad:
  assumes "s = [] \<or> last s \<noteq> pad_char"
  shows "unpad (pad s n pad_char) pad_char = s"
proof -
  have "dropWhile (\<lambda>c. c = pad_char) (rev s) = rev s"
    using assms by (cases s rule: rev_cases) auto
  then have "unpad (s @ replicate k pad_char) pad_char = s" for k
    by (simp add: unpad_def dropWhile_append)
  from this [of 0] this [of "nat (n - int (length s))"] show ?thesis
    by (simp add: pad_def)
qed

text \<open>
  C3 (as stated): the encoded sequence has length exactly \<open>max_len\<close>. \<^verbatim>\<open>pad\<close> never
  truncates, so a two-character string encoded with \<open>max_len = 1\<close> gives two codes.
\<close>

theorem encode_longer_than_max_len:
  "encode ''ab'' 1 (fst (build_vocab [''ab''] CHR ''_'' CHR ''^'')) = Inr [1, 2] \<and>
   int (length [1 :: int, 2]) \<noteq> 1"
  by (simp add: vocab_eval encode_def pad_def lookup_def)

text \<open>
  C3 (amended): for a string whose characters are all in \<^verbatim>\<open>char_dict\<close> (and with
  \<^verbatim>\<open>'_'\<close> in \<^verbatim>\<open>char_dict\<close> when padding is added), \<^verbatim>\<open>encode\<close> returns a list of integers
  of length \<open>max(len(s), max_len)\<close>: exactly \<open>max_len\<close> when \<open>len(s) \<le> max_len\<close>, and
  \<open>len(s)\<close> otherwise.
\<close>

theorem encode_length:
  assumes "set s \<subseteq> dom char_dict"
    and "int (length s) < max_len \<longrightarrow> CHR ''_'' \<in> dom char_dict"
  shows "\<exists>codes. encode s max_len char_dict = Inr codes \<and>
           int (length codes) = max (int (length s)) max_len"
proof -
  have "set (pad s max_len CHR ''_'') \<subseteq> dom char_dict"
    using assms by (auto simp: pad_def split: if_splits)
  from for_each_lookup [OF this] obtain codes
    where c: "encode s max_len char_dict = Inr codes"
      "list_all2 (\<lambda>x y. char_dict x = Some y) (pad s max_len CHR ''_'') codes"
    by (auto simp: encode_def)
  from c(2) have "length codes = length (pad s max_len CHR ''_'')"
    by (simp add: list_all2_lengthD)
  then have "int (length codes) = max (int (length s)) max_len"
    by (auto simp: pad_def)
  with c(1) show ?thesis by simp
qed

theorem encode_length_witness:
  "(\<exists>codes. encode ''ab'' 4 (fst (build_vocab [''ab''] CHR ''_'' CHR ''^'')) = Inr codes \<and>
      int (length codes) = 4) \<and>
   (\<exists>codes. encode ''ab'' 1 (fst (build_vocab [''ab''] CHR ''_'' CHR ''^'')) = Inr codes \<and>
      int (length codes) = 2)"
proof -
  have d: "dom (fst (build_vocab [''ab''] CHR ''_'' CHR ''^'')) = {CHR ''_'', CHR ''^'', CHR ''a'', CHR ''b''}"
    using build_vocab_dom [OF surjective_pairing, of "[''ab'']" "CHR ''_''" "CHR ''^''"]
    by (simp add: corpus_chars_def)
  have a: "set ''ab'' \<subseteq> dom (fst (build_vocab [''ab''] CHR ''_'' CHR ''^''))"
    and b: "int (length ''ab'') < m \<longrightarrow> CHR ''_'' \<in> dom (fst (build_vocab [''ab''] CHR ''_'' CHR ''^''))" for m
    by (simp_all add: d)
  from encode_length [OF a b, of 4] encode_length [OF a b, of 1] show ?thesis
    by simp
qed

text \<open>
  The round trip for a vocabulary built with the default pad character \<^verbatim>\<open>'_'\<close> (and any
  start character): a string over the vocabulary that does not end in \<^verbatim>\<open>'_'\<close> is decoded
  from its encoding, for every \<open>max_len\<close>.
\<close>

lemma codec_roundtrip_default_pad:
  assumes "build_vocab smiles CHR ''_'' start_char = (char_dict, ord_dict)"
    and "set s \<subseteq> dom char_dict"
    and "s = [] \<or> last s \<noteq> CHR ''_''"
  shows "\<exists>codes. encode s max_len char_dict = Inr codes \<and> decode codes ord_dict = Inr s"
proof -
  have "CHR ''_'' \<in> dom char_dict"
    using build_vocab_dom [OF assms(1)] by simp
  with assms(2) have "set (pad s max_len CHR ''_'') \<subseteq> dom char_dict"
    by (auto simp: pad_def split: if_splits)
  from for_each_lookup [OF this] obtain codes
    where c: "encode s max_len char_dict = Inr codes"
      "list_all2 (\<lambda>x y. char_dict x = Some y) (pad s max_len CHR ''_'') codes"
    by (auto simp: encode_def)
  have "for_each (lookup ord_dict) codes = Inr (pad s max_len CHR ''_'')"
    using for_each_lookup_inverse [OF c(2)] build_vocab_decodes [OF assms(1)] by blast
  then have "decode codes ord_dict = Inr s"
    using unpad_pad [OF assms(3)] by (simp add: decode_def)
  with c(1) show ?thesis by simp
qed

lemma codec_roundtrip_default_pad_example:
  "\<exists>codes. encode ''AB'' 4 (fst (build_vocab [''AB'', ''BA''] CHR ''_'' CHR ''^'')) = Inr codes \<and>
     decode codes (snd (build_vocab [''AB'', ''BA''] CHR ''_'' CHR ''^'')) = Inr ''AB''"
proof -
  have "set ''AB'' \<subseteq> dom (fst (build_vocab [''AB'', ''BA''] CHR ''_'' CHR ''^''))"
    using build_vocab_dom [OF surjective_pairing, of "[''AB'', ''BA'']" "CHR ''_''" "CHR ''^''"]
    by (simp add: corpus_chars_def)
  from codec_roundtrip_default_pad [OF surjective_pairing this] show ?thesis
    by simp
qed

text \<open>
  C1: the round trip for every vocabulary built by \<^verbatim>\<open>build_vocab\<close>. The codec pads and
  unpads with \<^verbatim>\<open>'_'\<close> whatever pad character the vocabulary was built with. For a
  vocabulary built with \<^verbatim>\<open>pad_char='*'\<close>: \<^verbatim>\<open>encode("a", 2, char_dict)\<close> raises
  \<^verbatim>\<open>KeyError\<close> (the corpus \<^verbatim>\<open>["a"]\<close> has no \<^verbatim>\<open>'_'\<close>), and with the corpus \<^verbatim>\<open>["a_"]\<close>
  the string \<^verbatim>\<open>"a_"\<close>, which holds neither the pad nor the start character, is encoded to
  \<^verbatim>\<open>[1, 2, 2]\<close> and decoded to \<^verbatim>\<open>"a"\<close>.
\<close>

theorem codec_ignores_vocabulary_pad_char:
  "encode ''a'' 2 (fst (build_vocab [''a''] CHR ''*'' CHR ''^'')) = Inl KeyError \<and>
   encode ''a_'' 3 (fst (build_vocab [''a_''] CHR ''*'' CHR ''^'')) = Inr [1, 2, 2] \<and>
   decode [1, 2, 2] (snd (build_vocab [''a_''] CHR ''*'' CHR ''^'')) = Inr ''a''"
  by (simp add: vocab_eval encode_def decode_def pad_def unpad_def lookup_def)

subsection \<open>\<open>apply_to_valid\<close>\<close>



subsection \<open>\<open>print_results\<close> and \<open>compute_results\<close>\<close>

text \<open>
  With a total of 0 samples the first percentage divides by \<^verbatim>\<open>float(0)\<close>: two lines are
  printed, then \<^verbatim>\<open>ZeroDivisionError\<close> is raised.
\<close>

lemma print_results_zero_total:
  assumes "n_samples results = Some 0" and "uniq_samples results = Some u"
  shows "print_results verified_samples unverified_samples results =
           ([Text ''~~~ Summary Results ~~~'', Count ''Total samples'' 0], Inl ZeroDivisionError)"
  using assms by (simp add: print_results_def print_stat_def percent_def)

text \<open>
  C7: on a batch with \<open>n_samples = 0\<close> the percentages are guarded against division by
  zero. They are not: \<^verbatim>\<open>print_results\<close> on the counts of an empty batch, and
  \<^verbatim>\<open>compute_results\<close> on an empty batch (which reports by default), raise
  \<^verbatim>\<open>ZeroDivisionError\<close>; \<^verbatim>\<open>pct\<close>, in the same module, has the guard.
\<close>

theorem print_results_empty_batch:
  "print_results [] []
     (empty_results\<lparr>n_samples := Some 0, uniq_samples := Some 0,
                    good_samples := Some 0, bad_samples := Some 0\<rparr>) =
     ([Text ''~~~ Summary Results ~~~'', Count ''Total samples'' 0], Inl ZeroDivisionError) \<and>
   snd (compute_results toy_MolFromSmiles toy_GetNumAtoms [] () Map.empty empty_results True empty_fs) =
     Inl ZeroDivisionError \<and>
   pct ([] :: string list) ([] :: string list) = 0"
  by (simp add: print_results_def print_stat_def percent_def compute_results_def save_batch_def
      empty_results_def pct_def)

lemma for_each_length: "for_each f xs = Inr ys \<Longrightarrow> length ys = length xs"
  by (induction xs arbitrary: ys) (auto split: sum.splits)

lemma partition_loop_length:
  "partition_loop P N samples v u = Inr (v', u') \<Longrightarrow>
   length v' + length u' = length v + length u + length samples"
  by (induction samples arbitrary: v u) (auto split: sum.splits if_splits)

text \<open>
  C8 (as stated): \<^verbatim>\<open>compute_results\<close> returns the record it mutated. On a batch of two
  samples it fills the record in and returns \<^verbatim>\<open>None\<close>.
\<close>

theorem compute_results_returns_no_record:
  "compute_results toy_MolFromSmiles toy_GetNumAtoms [[1, 2, 3], [2, 3, 3]] ()
      (snd (build_vocab [''CO''] CHR ''_'' CHR ''^'')) empty_results False empty_fs =
   ((empty_results\<lparr>mean_length := Some (Finite (3 / 2)), n_samples := Some 2,
        uniq_samples := Some 2, good_samples := Some 1, bad_samples := Some 1\<rparr>, empty_fs, []),
    Inr None)"
  by (simp add: compute_results_def decode_def unpad_def lookup_def vocab_eval
      verify_sequence_def toy_MolFromSmiles_def toy_GetNumAtoms_def save_batch_def
      empty_results_def np_mean_def)

text \<open>
  C8 (amended): whenever \<^verbatim>\<open>compute_results\<close> returns, it returns \<^verbatim>\<open>None\<close>, and it has
  mutated the provided record in place: \<^verbatim>\<open>n_samples\<close> is the size of the batch,
  \<^verbatim>\<open>good_samples\<close> and \<^verbatim>\<open>bad_samples\<close> add up to it, \<^verbatim>\<open>uniq_samples\<close> is at most it,
  \<^verbatim>\<open>mean_length\<close> is set, and \<^verbatim>\<open>exp_name\<close> and \<^verbatim>\<open>Batch\<close> are as they were.
\<close>

theorem compute_results_returns_None:
  assumes "compute_results MolFromSmiles GetNumAtoms encoded_samples train_data ord_dict results
             verbose fs = ((results', fs', printed), Inr ret)"
  shows "ret = None \<and>
         n_samples results' = Some (int (length encoded_samples)) \<and>
         (\<exists>g b. good_samples results' = Some g \<and> bad_samples results' = Some b \<and>
                g + b = int (length encoded_samples)) \<and>
         (\<exists>u. uniq_samples results' = Some u \<and> u \<le> int (length encoded_samples)) \<and>
         mean_length results' \<noteq> None \<and>
         exp_name results' = exp_name results \<and> Batch results' = Batch results"
proof -
  from assms obtain samples where
    s: "for_each (\<lambda>s. decode s ord_dict) encoded_samples = Inr samples"
    by (auto simp: compute_results_def split: sum.splits)
  from assms s obtain v u where
    p: "partition_loop MolFromSmiles GetNumAtoms samples [] [] = Inr (v, u)"
    by (auto simp: compute_results_def Let_def split: sum.splits)
  have len: "length samples = length encoded_samples"
    using for_each_length [OF s] .
  have vu: "length v + length u = length encoded_samples"
    using partition_loop_length [OF p] len by simp
  have "length (remdups samples) \<le> length encoded_samples"
    using length_remdups_leq [of samples] len by simp
  with assms s p len vu show ?thesis
    by (auto simp: compute_results_def save_batch_def Let_def
        split: sum.splits option.splits if_splits prod.splits)
qed

theorem compute_results_returns_None_witness:
  "snd (compute_results toy_MolFromSmiles toy_GetNumAtoms [[1, 2, 4, 4], [1, 2, 4, 4], [3, 3, 4, 4]] ()
          (snd (build_vocab [''AB'', ''BA'', ''ZZ''] CHR ''_'' CHR ''^'')) empty_results True empty_fs) =
     Inr None \<and>
   n_samples (fst (fst (compute_results toy_MolFromSmiles toy_GetNumAtoms
          [[1, 2, 4, 4], [1, 2, 4, 4], [3, 3, 4, 4]] ()
          (snd (build_vocab [''AB'', ''BA'', ''ZZ''] CHR ''_'' CHR ''^'')) empty_results True empty_fs))) =
     Some 3"
proof -
  define X where "X = compute_results toy_MolFromSmiles toy_GetNumAtoms
          [[1, 2, 4, 4], [1, 2, 4, 4], [3, 3, 4, 4]] ()
          (snd (build_vocab [''AB'', ''BA'', ''ZZ''] CHR ''_'' CHR ''^'')) empty_results True empty_fs"
  have out: "snd X = Inr None"
    unfolding X_def
    by (simp add: compute_results_def decode_def unpad_def lookup_def vocab_eval
        verify_sequence_def toy_MolFromSmiles_def toy_GetNumAtoms_def save_batch_def
        print_results_def print_stat_def percent_def empty_results_def)
  have "X = ((fst (fst X), fst (snd (fst X)), snd (snd (fst X))), snd X)"
    by simp
  with out have "X = ((fst (fst X), fst (snd (fst X)), snd (snd (fst X))), Inr None)"
    by simp
  from compute_results_returns_None [OF this [unfolded X_def]] out show ?thesis
    unfolding X_def by simp
qed

end
